theory Spec2Isabelle
  imports Main "HOL-Library.Word"
begin

unbundle bit_operations_syntax

section \<open>JavaScript 32-bit integer operators\<close>

text \<open>
  The programs are JavaScript. A Number that holds an integer is modelled as \<open>int\<close>; Numbers
  with a fractional part, \<open>NaN\<close> and the infinities are outside the model. The bitwise
  operators convert each operand with \<open>ToInt32\<close> (the low 32 bits), work on the 32-bit
  pattern and give the result back as a signed Number; the shift operators use the low five
  bits of the right operand as the distance.
\<close>

type_synonym int32 = "32 word"

definition ToInt32 :: "int \<Rightarrow> int32" where
  "ToInt32 x = word_of_int x"

definition js_bitor :: "int \<Rightarrow> int \<Rightarrow> int" where
  "js_bitor a b = sint (ToInt32 a OR ToInt32 b)"

definition js_bitxor :: "int \<Rightarrow> int \<Rightarrow> int" where
  "js_bitxor a b = sint (ToInt32 a XOR ToInt32 b)"

definition js_shl :: "int \<Rightarrow> int \<Rightarrow> int" where
  "js_shl a n = sint (push_bit (unat (ToInt32 n AND 31)) (ToInt32 a))"

definition js_sar :: "int \<Rightarrow> int \<Rightarrow> int" where
  "js_sar a n = sint (signed_drop_bit (unat (ToInt32 n AND 31)) (ToInt32 a))"

section \<open>solution-script.js: the generator\<close>

text \<open>
  \<open>xorshift32\<close> reassigns its parameter four times; \<open>seed1\<close> to \<open>seed4\<close> are the
  successive values of \<open>seed\<close>:
  \<^verbatim>\<open>seed = seed | 0;  seed ^= (seed << 13) | 0;  seed ^= (seed >> 17) | 0;
  seed ^= (seed << 5) | 0;  return seed | 0;\<close>
\<close>

definition xorshift32 :: "int \<Rightarrow> int" where
  "xorshift32 seed =
     (let seed1 = js_bitor seed 0;
          seed2 = js_bitxor seed1 (js_bitor (js_shl seed1 13) 0);
          seed3 = js_bitxor seed2 (js_bitor (js_sar seed2 17) 0);
          seed4 = js_bitxor seed3 (js_bitor (js_shl seed3 5) 0)
      in js_bitor seed4 0)"

text \<open>
  The \<open>for\<close> loop of \<open>generateSequence\<close>, with its three variables \<open>i\<close>,
  \<open>currentSeed\<close> and \<open>sequence\<close>; \<open>sequence.push\<close> appends at the end.
\<close>

function generateSequence_loop :: "int \<Rightarrow> int \<Rightarrow> int \<Rightarrow> int list \<Rightarrow> int list" where
  "generateSequence_loop count i currentSeed sequence =
     (if i < count
      then generateSequence_loop count (i + 1) (xorshift32 currentSeed)
             (sequence @ [xorshift32 currentSeed])
      else sequence)"
  by pat_completeness auto
termination
  by (relation "measure (\<lambda>(count, i, currentSeed, sequence). nat (count - i))") auto

declare generateSequence_loop.simps [simp del]

definition generateSequence :: "int \<Rightarrow> int \<Rightarrow> int list" where
  "generateSequence initialSeed count = generateSequence_loop count 0 initialSeed []"

text \<open>
  The same loop as a relation between the loop variables and the returned array: one rule
  for leaving the loop, one for an iteration. A run of \<open>generateSequence\<close> is a derivation
  that starts with \<open>i = 0\<close>, the given seed and the empty array.
\<close>

inductive loop_run :: "int \<Rightarrow> int \<Rightarrow> int \<Rightarrow> int list \<Rightarrow> int list \<Rightarrow> bool"
  for count :: int where
  loop_exit: "\<not> i < count \<Longrightarrow> loop_run count i currentSeed sequence sequence"
| loop_iter: "i < count \<Longrightarrow>
     loop_run count (i + 1) (xorshift32 currentSeed) (sequence @ [xorshift32 currentSeed]) out \<Longrightarrow>
     loop_run count i currentSeed sequence out"

definition generateSequence_run :: "int \<Rightarrow> int \<Rightarrow> int list \<Rightarrow> bool" where
  "generateSequence_run initialSeed count out = loop_run count 0 initialSeed [] out"

section \<open>Values, responses and console output\<close>

text \<open>
  The values the scripts handle: what \<open>JSON.parse\<close> returns, and \<open>undefined\<close> for a
  property that is not there.
\<close>

datatype jsval =
    JUndefined
  | JNull
  | JBool bool
  | JNum int
  | JStr string
  | JArr "jsval list"
  | JObj "(string \<times> jsval) list"

datatype js_error =
    FetchFailed
  | HttpStatusError nat
  | JsonSyntaxError
  | BodyReadFailed
  | BodyAlreadyUsed
  | NullProperty
  | NotPrimitive

text \<open>
  What the server answers to one \<open>fetch\<close>: the call rejects, or it resolves with a
  response. \<open>body_text\<close> is the body as text, \<open>None\<close> when reading it fails;
  \<open>body_json\<close> is what \<open>JSON.parse\<close> gives on that text, \<open>None\<close> when it throws.
\<close>

record http_reply =
  status :: nat
  body_text :: "string option"
  body_json :: "jsval option"

datatype fetch_result = NetworkFailure | Reply http_reply

text \<open>
  The \<open>Response\<close> object. Its body is a stream that can be read once: \<open>json()\<close> and
  \<open>text()\<close> both consume it, and either of them rejects with a \<open>TypeError\<close> on a
  response whose body has been read already.
\<close>

record response =
  reply :: http_reply
  bodyUsed :: bool

definition new_response :: "http_reply \<Rightarrow> response" where
  "new_response rp = \<lparr>reply = rp, bodyUsed = False\<rparr>"

definition reply_ok :: "http_reply \<Rightarrow> bool" where
  "reply_ok rp \<longleftrightarrow> 200 \<le> status rp \<and> status rp \<le> 299"

definition response_ok :: "response \<Rightarrow> bool" where
  "response_ok r = reply_ok (reply r)"

definition response_text :: "response \<Rightarrow> (js_error + string) \<times> response" where
  "response_text r =
     (if bodyUsed r then (Inl BodyAlreadyUsed, r)
      else (case body_text (reply r) of
              None \<Rightarrow> Inl BodyReadFailed
            | Some t \<Rightarrow> Inr t,
            r\<lparr>bodyUsed := True\<rparr>))"

definition response_json :: "response \<Rightarrow> (js_error + jsval) \<times> response" where
  "response_json r =
     (case response_text r of
        (Inl e, r') \<Rightarrow> (Inl e, r')
      | (Inr t, r') \<Rightarrow>
          (case body_json (reply r) of
             None \<Rightarrow> Inl JsonSyntaxError
           | Some v \<Rightarrow> Inr v,
           r'))"

text \<open>
  Reading a property, for the three names the scripts read (\<open>uid\<close>, \<open>initialSeed\<close>,
  \<open>verificationCode\<close>): a \<open>TypeError\<close> on \<open>null\<close> and on \<open>undefined\<close>, the
  property of an object when it has one, \<open>undefined\<close> in every other case.
\<close>

fun get_prop :: "jsval \<Rightarrow> string \<Rightarrow> js_error + jsval" where
  "get_prop JNull k = Inl NullProperty"
| "get_prop JUndefined k = Inl NullProperty"
| "get_prop (JObj kvs) k = (case map_of kvs k of None \<Rightarrow> Inr JUndefined | Some v \<Rightarrow> Inr v)"
| "get_prop v k = Inr JUndefined"

text \<open>
  Converting a value to a string, as a template literal does with each of its parts, throws
  a \<open>TypeError\<close> for an object that has a property \<open>toString\<close> of its own: the
  property is data, not a function, it hides the built-in method, and \<open>valueOf\<close>
  gives back the object. An array is converted by joining its elements, each converted in
  turn. Nothing else that \<open>JSON.parse\<close> returns throws. Converting to a number throws
  for the same values.
\<close>

fun toString_throws :: "jsval \<Rightarrow> bool" where
  "toString_throws (JObj kvs) = (map_of kvs ''toString'' \<noteq> None)"
| "toString_throws (JArr xs) = list_ex toString_throws xs"
| "toString_throws v = False"

text \<open>
  The object handed to \<open>JSON.stringify\<close> for the body of a request, and the traffic and
  console output of a script in the order it happens. A message holds the values that the
  source formats into its text.
\<close>

datatype post_body =
    SubmitData jsval "int list"
  | VerificationData jsval

datatype message =
    MsgFetching
  | MsgReceived jsval jsval
  | MsgFirstFew "int list"
  | MsgSubmitting
  | MsgStatus nat
  | MsgSuccess jsval
  | MsgSuccessRaw string
  | MsgHttpError nat string
  | MsgCaught js_error
  | MsgValue jsval
  | MsgPromise

datatype event =
    GET
  | POST "(string \<times> string) list" post_body
  | Log message
  | LogError message

datatype outcome = Resolved | Rejected js_error

definition json_headers :: "(string \<times> string) list" where
  "json_headers = [(''Content-Type'', ''application/json'')]"

section \<open>solution-script.js: solveChallenge\<close>

text \<open>
  \<open>seed | 0\<close> on the value read from the body, before the first round of \<open>xorshift32\<close>.
  \<open>undefined\<close> becomes \<open>NaN\<close> and then 0; what a string, an array or an object
  becomes is the platform's conversion, taken as the parameter \<open>conv\<close>. The value has
  been converted to a string for the log line before, so this conversion does not throw.
\<close>

fun seed_number :: "(jsval \<Rightarrow> int) \<Rightarrow> jsval \<Rightarrow> int" where
  "seed_number conv (JNum n) = n"
| "seed_number conv JUndefined = 0"
| "seed_number conv JNull = 0"
| "seed_number conv (JBool b) = (if b then 1 else 0)"
| "seed_number conv v = conv v"

text \<open>
  The body of the \<open>try\<close> block: the events so far, and the error thrown if one was.
  \<open>get_res\<close> and \<open>post_res\<close> are the server's answers to the two requests. The
  template literal of the second log line reads \<open>data.uid\<close> and converts it to a string,
  then \<open>data.initialSeed\<close>; either step can throw, and then the line is not printed.
\<close>

definition submit_results :: "event list \<Rightarrow> fetch_result \<Rightarrow> event list \<times> js_error option" where
  "submit_results evs post_res =
     (case post_res of
        NetworkFailure \<Rightarrow> (evs, Some FetchFailed)
      | Reply prp \<Rightarrow>
          (let submitResponse = new_response prp in
           case response_text submitResponse of
             (Inl e, _) \<Rightarrow> (evs, Some e)
           | (Inr responseText, _) \<Rightarrow>
               (let evs1 = evs @ [Log (MsgStatus (status prp))] in
                if response_ok submitResponse
                then (case body_json prp of
                        Some result \<Rightarrow> (evs1 @ [Log (MsgSuccess result)], None)
                      | None \<Rightarrow> (evs1 @ [Log (MsgSuccessRaw responseText)], None))
                else (evs1 @ [LogError (MsgHttpError (status prp) responseText)], None))))"

definition solveChallenge_try ::
  "(jsval \<Rightarrow> int) \<Rightarrow> fetch_result \<Rightarrow> fetch_result \<Rightarrow> event list \<times> js_error option" where
  "solveChallenge_try conv get_res post_res =
     (let evs = [Log MsgFetching, GET] in
      case get_res of
        NetworkFailure \<Rightarrow> (evs, Some FetchFailed)
      | Reply rp \<Rightarrow>
          (let response = new_response rp in
           if \<not> response_ok response then (evs, Some (HttpStatusError (status rp)))
           else
             case response_json response of
               (Inl e, _) \<Rightarrow> (evs, Some e)
             | (Inr data, _) \<Rightarrow>
                 (case get_prop data ''uid'' of
                    Inl e \<Rightarrow> (evs, Some e)
                  | Inr uid \<Rightarrow>
                      if toString_throws uid then (evs, Some NotPrimitive)
                      else
                      (case get_prop data ''initialSeed'' of
                         Inl e \<Rightarrow> (evs, Some e)
                       | Inr initialSeed \<Rightarrow>
                           if toString_throws initialSeed then (evs, Some NotPrimitive)
                           else
                           (let sequence = generateSequence (seed_number conv initialSeed) 128;
                                submitData = SubmitData uid sequence
                            in submit_results
                                 (evs @ [Log (MsgReceived uid initialSeed),
                                         Log (MsgFirstFew (take 5 sequence)),
                                         Log MsgSubmitting,
                                         POST json_headers submitData])
                                 post_res)))))"

text \<open>The \<open>catch\<close> block logs whatever was thrown; the promise resolves either way.\<close>

definition solveChallenge ::
  "(jsval \<Rightarrow> int) \<Rightarrow> fetch_result \<Rightarrow> fetch_result \<Rightarrow> event list \<times> outcome" where
  "solveChallenge conv get_res post_res =
     (case solveChallenge_try conv get_res post_res of
        (evs, None) \<Rightarrow> (evs, Resolved)
      | (evs, Some error) \<Rightarrow> (evs @ [LogError (MsgCaught error)], Resolved))"

section \<open>TestCode/test.js: main\<close>

text \<open>
  \<open>main\<close> has no \<open>try\<close>: an error thrown inside rejects its promise. It calls
  \<open>data.json()\<close> twice on the one response, the second time while building the body of
  the request. \<open>console.log(potentialData.text())\<close> prints the promise, not the text.
\<close>

definition main :: "fetch_result \<Rightarrow> fetch_result \<Rightarrow> event list \<times> outcome" where
  "main get_res post_res =
     (let evs = [GET] in
      case get_res of
        NetworkFailure \<Rightarrow> (evs, Rejected FetchFailed)
      | Reply rp \<Rightarrow>
          (let data = new_response rp in
           case response_json data of
             (Inl e, _) \<Rightarrow> (evs, Rejected e)
           | (Inr shown, data1) \<Rightarrow>
               (let evs1 = evs @ [Log (MsgValue shown)] in
                case response_json data1 of
                  (Inl e, _) \<Rightarrow> (evs1, Rejected e)
                | (Inr again, _) \<Rightarrow>
                    (case get_prop again ''verificationCode'' of
                       Inl e \<Rightarrow> (evs1, Rejected e)
                     | Inr code \<Rightarrow>
                         (let evs2 = evs1 @ [POST json_headers (VerificationData code)] in
                          case post_res of
                            NetworkFailure \<Rightarrow> (evs2, Rejected FetchFailed)
                          | Reply prp \<Rightarrow> (evs2 @ [Log MsgPromise], Resolved))))))"

section \<open>What a run sends\<close>

text \<open>The bodies of the \<open>POST\<close> requests among the events of a run, in order.\<close>

fun posts :: "event list \<Rightarrow> post_body list" where
  "posts [] = []"
| "posts (POST headers body # evs) = body # posts evs"
| "posts (e # evs) = posts evs"



section \<open>The generator as the specification words it\<close>

text \<open>
  The 32-bit signed range, wrapping into it, and the three rounds on mathematical integers:
  shifting left is multiplying by a power of two and wrapping, the sign-extending shift
  right is the division that rounds down, and every intermediate is wrapped.
\<close>

definition is_int32 :: "int \<Rightarrow> bool" where
  "is_int32 x \<longleftrightarrow> - (2 ^ 31) \<le> x \<and> x < 2 ^ 31"

definition wrap32 :: "int \<Rightarrow> int" where
  "wrap32 x = (x + 2 ^ 31) mod 2 ^ 32 - 2 ^ 31"

definition spec_mix :: "int \<Rightarrow> int" where
  "spec_mix seed =
     (let r1 = wrap32 (seed XOR wrap32 (seed * 2 ^ 13));
          r2 = wrap32 (r1 XOR wrap32 (r1 div 2 ^ 17));
          r3 = wrap32 (r2 XOR wrap32 (r2 * 2 ^ 5))
      in wrap32 r3)"

definition fixed_point :: "int \<Rightarrow> bool" where
  "fixed_point x \<longleftrightarrow> xorshift32 x = x"

text \<open>The three rounds on the bit pattern; the program and the specification's rounds both
  compute it.\<close>

definition mix_word :: "int32 \<Rightarrow> int32" where
  "mix_word w =
     (let a = w XOR push_bit 13 w;
          b = a XOR signed_drop_bit 17 a
      in b XOR push_bit 5 b)"

section \<open>The operators on words\<close>

lemma sint_ToInt32: "sint (ToInt32 x) = wrap32 x"
  by (simp add: ToInt32_def wrap32_def int_word_sint)

lemma ToInt32_sint: "ToInt32 (sint w) = w"
  by (simp add: ToInt32_def)

lemma ToInt32_wrap32: "ToInt32 (wrap32 x) = ToInt32 x"
  by (simp add: sint_ToInt32 [symmetric] ToInt32_sint)

lemma ToInt32_xor: "ToInt32 (a XOR b) = ToInt32 a XOR ToInt32 b"
  by (simp add: ToInt32_def of_int_xor_eq)

lemma ToInt32_shl: "ToInt32 (a * 2 ^ n) = push_bit n (ToInt32 a)"
  by (simp add: ToInt32_def push_bit_eq_mult)

lemma ToInt32_sar: "ToInt32 (sint w div 2 ^ n) = signed_drop_bit n (w :: int32)"
proof -
  have "sint w div 2 ^ n = sint (signed_drop_bit n w)"
    by (simp add: sint_signed_drop_bit_eq drop_bit_eq_div)
  then show ?thesis
    by (simp only: ToInt32_sint)
qed

lemma js_bitor_0: "js_bitor a 0 = wrap32 a"
proof -
  have "ToInt32 0 = 0"
    by (simp add: ToInt32_def)
  then show ?thesis
    by (simp add: js_bitor_def sint_ToInt32)
qed

lemma shift_count_13: "unat (ToInt32 13 AND 31) = 13"
  by (simp add: ToInt32_def)

lemma shift_count_17: "unat (ToInt32 17 AND 31) = 17"
  by (simp add: ToInt32_def)

lemma shift_count_5: "unat (ToInt32 5 AND 31) = 5"
  by (simp add: ToInt32_def)

lemma wrap32_sint: "wrap32 (sint (w :: int32)) = sint w"
  by (simp only: ToInt32_sint flip: sint_ToInt32)

lemma wrap32_xor_shl:
  "wrap32 (a XOR wrap32 (a * 2 ^ n)) = sint (ToInt32 a XOR push_bit n (ToInt32 a))"
  by (simp only: ToInt32_xor ToInt32_wrap32 ToInt32_shl ToInt32_sint flip: sint_ToInt32)

lemma wrap32_xor_sar:
  "wrap32 (sint w XOR wrap32 (sint w div 2 ^ n)) = sint (w XOR signed_drop_bit n (w :: int32))"
  by (simp only: ToInt32_xor ToInt32_wrap32 ToInt32_sar ToInt32_sint flip: sint_ToInt32)

lemma xorshift32_word: "xorshift32 seed = sint (mix_word (ToInt32 seed))"
  by (simp add: xorshift32_def mix_word_def Let_def js_bitor_0 js_bitxor_def js_shl_def js_sar_def
      shift_count_13 shift_count_17 shift_count_5 ToInt32_wrap32 ToInt32_sint
      flip: sint_ToInt32)

lemma spec_mix_word: "spec_mix seed = sint (mix_word (ToInt32 seed))"
  unfolding spec_mix_def mix_word_def Let_def
  by (simp only: wrap32_xor_shl wrap32_xor_sar wrap32_sint ToInt32_sint)

subsection \<open>Words fixed by the three rounds\<close>

lemma below_32:
  "n < 32 \<Longrightarrow>
   n \<in> {0, 1, 2, 3, 4, 5, 6, 7, 8, 9, 10, 11, 12, 13, 14, 15, 16, 17, 18, 19, 20, 21, 22,
     23, 24, 25, 26, 27, 28, 29, 30, 31 :: nat}"
  by simp arith

text \<open>
  A word that the three rounds leave unchanged. Bit by bit, a fixed point gives 32 equations
  between the bits of \<open>w\<close>. They are solved in an order in which each equation gives
  one more bit in terms of bits 4 to 8; the five equations left over then tie bits 5 to 8
  to bit 4, which is the only freedom.
\<close>

lemma mix_word_fixed:
  assumes "mix_word w = w"
  shows "w = 0 \<or> w = 0x4E260138"
proof -
  have E: "bit (mix_word w) n = bit w n" for n
    using assms by simp
  note e0 = E [of 0, unfolded mix_word_def Let_def, simplified bit_simps, simplified]
  note e1 = E [of 1, unfolded mix_word_def Let_def, simplified bit_simps, simplified]
  note e2 = E [of 2, unfolded mix_word_def Let_def, simplified bit_simps, simplified]
  note e3 = E [of 3, unfolded mix_word_def Let_def, simplified bit_simps, simplified]
  note e4 = E [of 4, unfolded mix_word_def Let_def, simplified bit_simps, simplified]
  note e5 = E [of 5, unfolded mix_word_def Let_def, simplified bit_simps, simplified]
  note e6 = E [of 6, unfolded mix_word_def Let_def, simplified bit_simps, simplified]
  note e7 = E [of 7, unfolded mix_word_def Let_def, simplified bit_simps, simplified]
  note e8 = E [of 8, unfolded mix_word_def Let_def, simplified bit_simps, simplified]
  note e9 = E [of 9, unfolded mix_word_def Let_def, simplified bit_simps, simplified]
  note e10 = E [of 10, unfolded mix_word_def Let_def, simplified bit_simps, simplified]
  note e11 = E [of 11, unfolded mix_word_def Let_def, simplified bit_simps, simplified]
  note e12 = E [of 12, unfolded mix_word_def Let_def, simplified bit_simps, simplified]
  note e13 = E [of 13, unfolded mix_word_def Let_def, simplified bit_simps, simplified]
  note e14 = E [of 14, unfolded mix_word_def Let_def, simplified bit_simps, simplified]
  note e15 = E [of 15, unfolded mix_word_def Let_def, simplified bit_simps, simplified]
  note e16 = E [of 16, unfolded mix_word_def Let_def, simplified bit_simps, simplified]
  note e17 = E [of 17, unfolded mix_word_def Let_def, simplified bit_simps, simplified]
  note e18 = E [of 18, unfolded mix_word_def Let_def, simplified bit_simps, simplified]
  note e19 = E [of 19, unfolded mix_word_def Let_def, simplified bit_simps, simplified]
  note e20 = E [of 20, unfolded mix_word_def Let_def, simplified bit_simps, simplified]
  note e21 = E [of 21, unfolded mix_word_def Let_def, simplified bit_simps, simplified]
  note e22 = E [of 22, unfolded mix_word_def Let_def, simplified bit_simps, simplified]
  note e23 = E [of 23, unfolded mix_word_def Let_def, simplified bit_simps, simplified]
  note e24 = E [of 24, unfolded mix_word_def Let_def, simplified bit_simps, simplified]
  note e25 = E [of 25, unfolded mix_word_def Let_def, simplified bit_simps, simplified]
  note e26 = E [of 26, unfolded mix_word_def Let_def, simplified bit_simps, simplified]
  note e27 = E [of 27, unfolded mix_word_def Let_def, simplified bit_simps, simplified]
  note e28 = E [of 28, unfolded mix_word_def Let_def, simplified bit_simps, simplified]
  note e29 = E [of 29, unfolded mix_word_def Let_def, simplified bit_simps, simplified]
  note e30 = E [of 30, unfolded mix_word_def Let_def, simplified bit_simps, simplified]
  note e31 = E [of 31, unfolded mix_word_def Let_def, simplified bit_simps, simplified]
  have b17: "bit w 17 = bit w 4"
    using e0  by auto
  have b9: "bit w 9 = False"
    using e22 b17 by auto
  have b18: "bit w 18 = bit w 5"
    using e1  by auto
  have b10: "bit w 10 = False"
    using e23 b18 by auto
  have b19: "bit w 19 = bit w 6"
    using e2  by auto
  have b11: "bit w 11 = False"
    using e24 b19 by auto
  have b20: "bit w 20 = bit w 7"
    using e3  by auto
  have b12: "bit w 12 = False"
    using e25 b20 by auto
  have b25: "bit w 25 = bit w 4"
    using e30 b12 b17 by auto
  have b3: "bit w 3 = bit w 4"
    using e8 b12 b20 b25 by auto
  have b21: "bit w 21 = bit w 8"
    using e4  by auto
  have b16: "bit w 16 = (bit w 4 \<noteq> bit w 8)"
    using e21 b3 by auto
  have b13: "bit w 13 = False"
    using e26 b21 by auto
  have b24: "bit w 24 = (bit w 4 \<noteq> bit w 8)"
    using e29 b11 b16 by auto
  have b26: "bit w 26 = bit w 5"
    using e31 b13 b18 by auto
  have b2: "bit w 2 = (bit w 4 \<noteq> bit w 8)"
    using e7 b11 b19 b24 by auto
  have b29: "bit w 29 = bit w 7"
    using e12 b11 b16 b24 by auto
  have b31: "bit w 31 = ((bit w 5 \<noteq> bit w 7) \<noteq> bit w 8)"
    using e17 b12 b16 b18 b29 by auto
  have b15: "bit w 15 = ((bit w 4 \<noteq> bit w 7) \<noteq> bit w 8)"
    using e20 b2 by auto
  have b23: "bit w 23 = ((bit w 4 \<noteq> bit w 7) \<noteq> bit w 8)"
    using e28 b10 b15 by auto
  have b1: "bit w (Suc 0) = ((bit w 4 \<noteq> bit w 7) \<noteq> bit w 8)"
    using e6 b10 b18 b23 by auto
  have b28: "bit w 28 = bit w 6"
    using e11 b10 b15 b23 by auto
  have b14: "bit w 14 = (((bit w 4 \<noteq> bit w 6) \<noteq> bit w 7) \<noteq> bit w 8)"
    using e19 b1 by auto
  have b22: "bit w 22 = (((bit w 4 \<noteq> bit w 6) \<noteq> bit w 7) \<noteq> bit w 8)"
    using e27 b9 b14 by auto
  have b0: "bit w 0 = (((bit w 4 \<noteq> bit w 6) \<noteq> bit w 7) \<noteq> bit w 8)"
    using e5 b9 b17 b22 by auto
  have b27: "bit w 27 = bit w 5"
    using e10 b9 b14 b22 by auto
  have b30: "bit w 30 = ((bit w 4 \<noteq> bit w 6) \<noteq> bit w 7)"
    using e13 b0 b12 b17 b25 by auto
  have g6: "bit w 6 = False"
    using e16 b3 b11 b15 b18 b28 b31 by auto
  have g5: "bit w 5 = bit w 4"
    using e9 b13 b21 b26 by auto
  have g7: "bit w 7 = False"
    using e18 g5 b0 b13 b17 b18 b30 b31 by auto
  have g8: "bit w 8 = bit w 4"
    using e15 g5 g6 b2 b10 b14 b18 b27 b31 by auto
  note g = g5 g6 g7 g8
  note b = b17 b9 b18 b10 b19 b11 b20 b12 b25 b3 b21 b16 b13 b24 b26 b2 b29 b31 b15 b23 b1 b28 b14 b22 b0 b27 b30
  show ?thesis
  proof (cases "bit w 4")
    case True
    have "w = 0x4E260138"
    proof (rule bit_word_eqI)
      fix n
      assume "n < LENGTH(32)"
      then have "n \<in> {0, 1, 2, 3, 4, 5, 6, 7, 8, 9, 10, 11, 12, 13, 14, 15, 16, 17, 18, 19, 20, 21, 22,
          23, 24, 25, 26, 27, 28, 29, 30, 31}"
        by (intro below_32) simp
      with True show "bit w n = bit (0x4E260138 :: int32) n"
        by (auto simp: b g bit_numeral_simps)
    qed
    then show ?thesis ..
  next
    case False
    have "w = 0"
    proof (rule bit_word_eqI)
      fix n
      assume "n < LENGTH(32)"
      then have "n \<in> {0, 1, 2, 3, 4, 5, 6, 7, 8, 9, 10, 11, 12, 13, 14, 15, 16, 17, 18, 19, 20, 21, 22,
          23, 24, 25, 26, 27, 28, 29, 30, 31}"
        by (intro below_32) simp
      with False show "bit w n = bit (0 :: int32) n"
        by (auto simp: b g)
    qed
    then show ?thesis ..
  qed
qed

section \<open>The stepper\<close>

text \<open>
  Claim C1. For every seed, and so for every 32-bit signed one, \<open>xorshift32\<close> returns
  what the three rounds of the specification give: exclusive-or with the left shift by 13
  wrapped to 32 bits, then with the sign-extending right shift by 17, then with the left
  shift by 5 wrapped to 32 bits, every intermediate and the result wrapped to the 32-bit
  two's-complement range.
\<close>

theorem xorshift32_three_round_mix: "xorshift32 seed = spec_mix seed"
  by (simp only: xorshift32_word spec_mix_word)

text \<open>
  Reference values: the seed 1 and its successor, and a seed whose second round shifts a
  negative value, where a zero-filling shift would give another result.
\<close>

lemma xorshift32_vectors:
  "xorshift32 1 = 270369"
  "xorshift32 270369 = 67601921"
  "xorshift32 (- 2147483648) = - 2146975744"
  by code_simp+

text \<open>
  Claim C8. \<open>xorshift32\<close> has no failing input: it is a total function with no error
  branch, and whatever the seed, the value it returns lies in the 32-bit signed range from
  \<open>- 2 ^ 31\<close> to \<open>2 ^ 31 - 1\<close>.
\<close>

theorem xorshift32_in_range: "- (2 ^ 31) \<le> xorshift32 seed \<and> xorshift32 seed \<le> 2 ^ 31 - 1"
  using sint_ge [of "mix_word (ToInt32 seed)"] sint_lt [of "mix_word (ToInt32 seed)"]
  by (simp add: xorshift32_word)

subsection \<open>Fixed points\<close>

lemma xorshift32_0: "xorshift32 0 = 0"
  by code_simp

lemma funpow_xorshift32_0: "(xorshift32 ^^ k) 0 = 0"
  by (induction k) (simp_all add: xorshift32_0)

text \<open>
  Zero is not the only fixed point, and a seed that is not a fixed point can step onto one.
\<close>

lemma fixed_point_values:
  "fixed_point 0"
  "fixed_point 1311113528"
  "xorshift32 (- 67100673) = 0"
  by code_simp+

lemma fixed_point_iff: "fixed_point x \<longleftrightarrow> x = 0 \<or> x = 1311113528"
proof
  assume "fixed_point x"
  then have x: "sint (mix_word (ToInt32 x)) = x"
    by (simp add: fixed_point_def xorshift32_word)
  then have "ToInt32 (sint (mix_word (ToInt32 x))) = ToInt32 x"
    by simp
  then have "mix_word (ToInt32 x) = ToInt32 x"
    by (simp only: ToInt32_sint)
  then have "mix_word (ToInt32 x) = 0 \<or> mix_word (ToInt32 x) = 0x4E260138"
    using mix_word_fixed [of "ToInt32 x"] by simp
  then have "sint (mix_word (ToInt32 x)) = 0 \<or> sint (mix_word (ToInt32 x)) = 1311113528"
    by auto
  with x show "x = 0 \<or> x = 1311113528"
    by simp
next
  assume "x = 0 \<or> x = 1311113528"
  then show "fixed_point x"
    using fixed_point_values by auto
qed

text \<open>
  Claim C9. The stepper is not idempotent in general: stepping twice differs from stepping
  once unless the first step lands on a fixed point of the stepper, which happens exactly
  when it lands on 0 or on 1311113528; and there is a 32-bit signed seed for which the two
  differ.
\<close>

theorem xorshift32_not_idempotent:
  "(\<not> fixed_point (xorshift32 s) \<longrightarrow> xorshift32 (xorshift32 s) \<noteq> xorshift32 s) \<and>
   (fixed_point (xorshift32 s) \<longleftrightarrow> xorshift32 s = 0 \<or> xorshift32 s = 1311113528) \<and>
   (\<exists>t. is_int32 t \<and> xorshift32 (xorshift32 t) \<noteq> xorshift32 t)"
proof -
  have "xorshift32 (xorshift32 1) \<noteq> xorshift32 1"
    by (simp add: xorshift32_vectors)
  moreover have "is_int32 1"
    by (simp add: is_int32_def)
  ultimately have "\<exists>t. is_int32 t \<and> xorshift32 (xorshift32 t) \<noteq> xorshift32 t"
    by blast
  moreover have "\<not> fixed_point (xorshift32 s) \<longrightarrow> xorshift32 (xorshift32 s) \<noteq> xorshift32 s"
    by (simp add: fixed_point_def)
  ultimately show ?thesis
    by (simp only: fixed_point_iff [of "xorshift32 s"] simp_thms)
qed

theorem xorshift32_not_idempotent_witness:
  "\<not> fixed_point (xorshift32 1) \<and> xorshift32 (xorshift32 1) \<noteq> xorshift32 1"
proof -
  have "\<not> fixed_point (xorshift32 1)"
    by (simp add: fixed_point_def xorshift32_vectors)
  with xorshift32_not_idempotent [of 1] show ?thesis
    by simp
qed

section \<open>The sequence generator\<close>

lemma generateSequence_loop_eq:
  "generateSequence_loop count i currentSeed sequence =
     sequence @ map (\<lambda>k. (xorshift32 ^^ Suc k) currentSeed) [0..<nat (count - i)]"
proof (induction count i currentSeed sequence rule: generateSequence_loop.induct)
  case (1 count i currentSeed sequence)
  show ?case
  proof (cases "i < count")
    case True
    then have n: "nat (count - i) = Suc (nat (count - (i + 1)))"
      by simp
    have "map (\<lambda>k. (xorshift32 ^^ Suc k) currentSeed) [0..<Suc (nat (count - (i + 1)))]
        = xorshift32 currentSeed #
          map (\<lambda>k. (xorshift32 ^^ Suc k) (xorshift32 currentSeed)) [0..<nat (count - (i + 1))]"
      by (simp add: upt_conv_Cons funpow_swap1 del: upt_Suc flip: map_Suc_upt)
    with True "1.IH" n show ?thesis
      by (subst generateSequence_loop.simps) simp
  next
    case False
    then show ?thesis
      by (subst generateSequence_loop.simps) simp
  qed
qed

lemma generateSequence_eq:
  "generateSequence s N = map (\<lambda>k. (xorshift32 ^^ Suc k) s) [0..<nat N]"
  by (simp add: generateSequence_def generateSequence_loop_eq)


lemma nth_generateSequence:
  "i < nat N \<Longrightarrow> generateSequence s N ! i = (xorshift32 ^^ Suc i) s"
  by (simp add: generateSequence_eq del: funpow.simps)

text \<open>
  A value equal to the seed is among the elements exactly when the stepper brings the seed
  back to itself within \<open>N\<close> steps, as it does for the fixed points.
\<close>

lemma seed_in_generateSequence:
  "s \<in> set (generateSequence s N) \<longleftrightarrow>
     (\<exists>k. 1 \<le> k \<and> int k \<le> N \<and> (xorshift32 ^^ k) s = s)"
proof
  assume "s \<in> set (generateSequence s N)"
  then obtain j where "j < nat N" "(xorshift32 ^^ Suc j) s = s"
    by (auto simp: generateSequence_eq simp del: funpow.simps)
  then have "1 \<le> Suc j \<and> int (Suc j) \<le> N \<and> (xorshift32 ^^ Suc j) s = s"
    by auto
  then show "\<exists>k. 1 \<le> k \<and> int k \<le> N \<and> (xorshift32 ^^ k) s = s"
    by blast
next
  assume "\<exists>k. 1 \<le> k \<and> int k \<le> N \<and> (xorshift32 ^^ k) s = s"
  then obtain k where k: "1 \<le> k" "int k \<le> N" "(xorshift32 ^^ k) s = s"
    by blast
  then obtain j where j: "k = Suc j"
    by (cases k) auto
  with k have "j < nat N" "(xorshift32 ^^ Suc j) s = s"
    by auto
  then have "s \<in> (\<lambda>k. (xorshift32 ^^ Suc k) s) ` {0..<nat N}"
    by (metis atLeastLessThan_iff image_eqI zero_le)
  then show "s \<in> set (generateSequence s N)"
    by (simp add: generateSequence_eq del: funpow.simps)
qed

text \<open>
  Claim C2. For a count \<open>N \<ge> 0\<close> and an index \<open>i < N\<close>, element \<open>i\<close> of
  \<open>generateSequence s N\<close> is the stepper applied \<open>i + 1\<close> times to \<open>s\<close>. The seed as
  given, not yet stepped, is never put into the output: the array is the list of the
  results of 1, 2, up to \<open>N\<close> steps. Said the other way, element 0 is the stepper of
  \<open>s\<close> and every later element is the stepper of the element before it.
\<close>

theorem generateSequence_elements:
  assumes "0 \<le> N" and "int i < N"
  shows "generateSequence s N ! i = (xorshift32 ^^ (i + 1)) s \<and>
         generateSequence s N = map (\<lambda>k. (xorshift32 ^^ (k + 1)) s) [0..<nat N] \<and>
         generateSequence s N ! i =
           xorshift32 (if i = 0 then s else generateSequence s N ! (i - 1))"
proof -
  from assms have i: "i < nat N"
    by simp
  then have a: "generateSequence s N ! i = (xorshift32 ^^ Suc i) s"
    by (rule nth_generateSequence)
  have "generateSequence s N ! i =
      xorshift32 (if i = 0 then s else generateSequence s N ! (i - 1))"
  proof (cases i)
    case 0
    with a show ?thesis by simp
  next
    case (Suc j)
    with i have "j < nat N" by simp
    then have "generateSequence s N ! j = (xorshift32 ^^ Suc j) s"
      by (rule nth_generateSequence)
    with a Suc show ?thesis by simp
  qed
  with a generateSequence_eq [of s N] show ?thesis
    by (simp only: Suc_eq_plus1 simp_thms)
qed

theorem generateSequence_elements_witness:
  "generateSequence 1 3 ! 2 = (xorshift32 ^^ (2 + 1)) 1 \<and>
   generateSequence 1 3 = map (\<lambda>k. (xorshift32 ^^ (k + 1)) 1) [0..<nat 3] \<and>
   generateSequence 1 3 ! 2 =
     xorshift32 (if (2 :: nat) = 0 then 1 else generateSequence 1 3 ! (2 - 1))"
  by (rule generateSequence_elements) simp_all

text \<open>
  Claim C7. With the count 0 the generator returns the empty array, and with a count
  \<open>N \<ge> 0\<close> it returns an array of exactly \<open>N\<close> elements.
\<close>

theorem generateSequence_length:
  assumes "0 \<le> N"
  shows "generateSequence s 0 = [] \<and> int (length (generateSequence s N)) = N"
  using assms by (simp add: generateSequence_eq)

theorem generateSequence_length_witness:
  "generateSequence 7 0 = [] \<and> int (length (generateSequence 7 128)) = 128"
  using generateSequence_length [of 128 7] by simp

text \<open>
  Claim C10. Zero is a fixed point of the stepper, and so the generator started at the
  seed 0 returns nothing but zeros, as many as the count asks for.
\<close>

theorem xorshift32_zero_fixed_point:
  "xorshift32 0 = 0 \<and> generateSequence 0 N = replicate (nat N) 0"
  by (simp add: xorshift32_0 generateSequence_eq funpow_xorshift32_0 map_replicate_trivial
      del: funpow.simps)

subsection \<open>Runs of the loop\<close>

lemma loop_run_total:
  "loop_run count i currentSeed sequence (generateSequence_loop count i currentSeed sequence)"
proof (induction count i currentSeed sequence rule: generateSequence_loop.induct)
  case (1 count i currentSeed sequence)
  show ?case
  proof (cases "i < count")
    case True
    with "1.IH" show ?thesis
      by (subst generateSequence_loop.simps) (simp add: loop_iter)
  next
    case False
    then show ?thesis
      by (subst generateSequence_loop.simps) (simp add: loop_exit)
  qed
qed

lemma loop_run_unique:
  "loop_run count i currentSeed sequence out \<Longrightarrow>
   out = generateSequence_loop count i currentSeed sequence"
proof (induction rule: loop_run.induct)
  case (loop_exit i currentSeed sequence)
  then show ?case
    by (subst generateSequence_loop.simps) simp
next
  case (loop_iter i currentSeed sequence out)
  then show ?case
    by (simp add: generateSequence_loop.simps [of count i currentSeed sequence])
qed

text \<open>Every seed and count has a run, and it returns what the function computes.\<close>

lemma generateSequence_run_total: "generateSequence_run s N (generateSequence s N)"
  by (simp add: generateSequence_run_def generateSequence_def loop_run_total)

text \<open>
  Claim C6. \<open>generateSequence\<close> is deterministic: two runs from the same seed with the
  same count return the same array.
\<close>

theorem generateSequence_deterministic:
  assumes "generateSequence_run s N out1" and "generateSequence_run s N out2"
  shows "out1 = out2"
  using assms by (auto simp: generateSequence_run_def dest: loop_run_unique)

theorem generateSequence_deterministic_witness:
  "generateSequence_run 1 2 [270369, 67601921] \<and>
   generateSequence_run 1 2 (generateSequence 1 2) \<and>
   [270369, 67601921] = generateSequence 1 2"
proof -
  have "loop_run 2 2 67601921 [270369, 67601921] [270369, 67601921]"
    by (rule loop_exit) simp
  then have "loop_run 2 1 270369 [270369] [270369, 67601921]"
    using loop_iter [of 1 2 270369 "[270369]" "[270369, 67601921]"]
    by (simp add: xorshift32_vectors)
  then have "loop_run 2 0 1 [] [270369, 67601921]"
    using loop_iter [of 0 2 1 "[]" "[270369, 67601921]"]
    by (simp add: xorshift32_vectors)
  then have stepwise: "generateSequence_run 1 2 [270369, 67601921]"
    by (simp add: generateSequence_run_def)
  have computed: "generateSequence_run 1 2 (generateSequence 1 2)"
    by (rule generateSequence_run_total)
  from generateSequence_deterministic [OF stepwise computed] stepwise computed
  show ?thesis
    by simp
qed

section \<open>Responses\<close>



lemma response_json_new:
  "response_json (new_response rp) =
     (case body_text rp of
        None \<Rightarrow> Inl BodyReadFailed
      | Some t \<Rightarrow> (case body_json rp of None \<Rightarrow> Inl JsonSyntaxError | Some v \<Rightarrow> Inr v),
      \<lparr>reply = rp, bodyUsed = True\<rparr>)"
  by (simp add: response_json_def response_text_def new_response_def split: option.splits)

lemma response_json_used: "bodyUsed r \<Longrightarrow> response_json r = (Inl BodyAlreadyUsed, r)"
  by (simp add: response_json_def response_text_def)

lemma response_ok_new: "response_ok (new_response rp) = reply_ok rp"
  by (simp add: response_ok_def new_response_def)

section \<open>TestCode/test.js: what main does\<close>

lemma main_cases:
  "main g p = ([GET], Rejected FetchFailed) \<or>
   main g p = ([GET], Rejected BodyReadFailed) \<or>
   main g p = ([GET], Rejected JsonSyntaxError) \<or>
   (\<exists>v. main g p = ([GET, Log (MsgValue v)], Rejected BodyAlreadyUsed))"
  by (cases g) (auto simp: main_def response_json_new response_json_used Let_def split: option.splits)

text \<open>Whatever the server answers, \<open>main\<close> sends no \<open>POST\<close> and its promise rejects.\<close>

lemma main_never_posts: "posts (fst (main g p)) = [] \<and> snd (main g p) \<noteq> Resolved"
  using main_cases [of g p] by auto



text \<open>
  Claim C5. For a response to the \<open>GET\<close> whose body is a JSON object with a field
  \<open>verificationCode\<close>, the script is to send a \<open>POST\<close> whose body is that value
  under the same name. The code does not get there. On such a response it prints the
  parsed body, then the second \<open>data.json()\<close> finds the body consumed by the first and
  rejects: the promise of \<open>main\<close> rejects and no \<open>POST\<close> is among the events.
\<close>

theorem main_rejects_before_post:
  \<open>main (Reply \<lparr>status = 200, body_text = Some ''{"verificationCode":"abc"}'',
            body_json = Some (JObj [(''verificationCode'', JStr ''abc'')])\<rparr>)
        (Reply \<lparr>status = 200, body_text = Some ''flag'', body_json = None\<rparr>) =
   ([GET, Log (MsgValue (JObj [(''verificationCode'', JStr ''abc'')]))], Rejected BodyAlreadyUsed)\<close>
  by (simp add: main_def response_json_new response_json_used)


section \<open>solution-script.js: what solveChallenge does\<close>




lemma solveChallenge_get_read:
  "reply_ok rp \<Longrightarrow> body_text rp = None \<Longrightarrow>
   fst (solveChallenge conv (Reply rp) p) =
     [Log MsgFetching, GET, LogError (MsgCaught BodyReadFailed)]"
  by (simp add: solveChallenge_def solveChallenge_try_def response_ok_new response_json_new)












text \<open>
  A body whose \<open>uid\<close> hides \<open>toString\<close>: the log line throws, the error is printed
  and no request follows.
\<close>

lemma solveChallenge_hidden_toString:
  \<open>solveChallenge conv
     (Reply \<lparr>status = 200, body_text = Some ''{"uid":{"toString":1},"initialSeed":1}'',
             body_json = Some (JObj [(''uid'', JObj [(''toString'', JNum 1)]),
                                     (''initialSeed'', JNum 1)])\<rparr>) p =
   ([Log MsgFetching, GET, LogError (MsgCaught NotPrimitive)], Resolved)\<close>
  by (simp add: solveChallenge_def solveChallenge_try_def response_ok_new response_json_new
      reply_ok_def)






end
